theory Spec2Isabelle
  imports Complex_Main "HOL-Library.Multiset" "HOL-Library.Log_Nat"
begin

section \<open>Numbers of the source language\<close>

text \<open>
  The layout engine computes on JavaScript numbers. In the operations of this section a
  finite double is taken as the real it denotes (no rounding, no overflow, one zero, which
  divides as \<open>+0\<close> does); the two infinities and NaN are kept, since the code reaches them
  by dividing by a zero side. The operations with the rounding of doubles follow in their
  own section.
\<close>

datatype number = Fin real | PInf | NInf | NaN

fun n_neg :: "number \<Rightarrow> number" where
  "n_neg (Fin a) = Fin (- a)"
| "n_neg PInf = NInf"
| "n_neg NInf = PInf"
| "n_neg NaN = NaN"

text \<open>\<open>a + b\<close>\<close>

fun n_add :: "number \<Rightarrow> number \<Rightarrow> number" where
  "n_add (Fin a) (Fin b) = Fin (a + b)"
| "n_add (Fin a) PInf = PInf"
| "n_add (Fin a) NInf = NInf"
| "n_add PInf (Fin b) = PInf"
| "n_add PInf PInf = PInf"
| "n_add PInf NInf = NaN"
| "n_add NInf (Fin b) = NInf"
| "n_add NInf NInf = NInf"
| "n_add NInf PInf = NaN"
| "n_add NaN b = NaN"
| "n_add a NaN = NaN"

text \<open>\<open>a - b\<close>\<close>

definition n_sub :: "number \<Rightarrow> number \<Rightarrow> number" where
  "n_sub a b = n_add a (n_neg b)"

text \<open>The infinity of the given sign (\<open>True\<close> for a result that is positive).\<close>

definition inf_of :: "bool \<Rightarrow> number" where
  "inf_of pos = (if pos then PInf else NInf)"

text \<open>\<open>a * b\<close>: an infinity times zero is NaN.\<close>

fun n_mul :: "number \<Rightarrow> number \<Rightarrow> number" where
  "n_mul (Fin a) (Fin b) = Fin (a * b)"
| "n_mul (Fin a) PInf = (if a = 0 then NaN else inf_of (0 < a))"
| "n_mul (Fin a) NInf = (if a = 0 then NaN else inf_of (a < 0))"
| "n_mul PInf (Fin b) = (if b = 0 then NaN else inf_of (0 < b))"
| "n_mul NInf (Fin b) = (if b = 0 then NaN else inf_of (b < 0))"
| "n_mul PInf PInf = PInf"
| "n_mul PInf NInf = NInf"
| "n_mul NInf PInf = NInf"
| "n_mul NInf NInf = PInf"
| "n_mul NaN b = NaN"
| "n_mul a NaN = NaN"

text \<open>
  \<open>a / b\<close>: nothing is raised on a zero divisor; a nonzero number over zero is an
  infinity, zero over zero and infinity over infinity are NaN, a finite number over an
  infinity is zero.
\<close>

fun n_div :: "number \<Rightarrow> number \<Rightarrow> number" where
  "n_div (Fin a) (Fin b) =
     (if b = 0 then (if a = 0 then NaN else inf_of (0 < a)) else Fin (a / b))"
| "n_div (Fin a) PInf = Fin 0"
| "n_div (Fin a) NInf = Fin 0"
| "n_div PInf (Fin b) = inf_of (0 \<le> b)"
| "n_div NInf (Fin b) = inf_of (b < 0)"
| "n_div PInf PInf = NaN"
| "n_div PInf NInf = NaN"
| "n_div NInf PInf = NaN"
| "n_div NInf NInf = NaN"
| "n_div NaN b = NaN"
| "n_div a NaN = NaN"

text \<open>\<open>a < b\<close>: false as soon as one side is NaN.\<close>

fun n_lt :: "number \<Rightarrow> number \<Rightarrow> bool" where
  "n_lt (Fin a) (Fin b) = (a < b)"
| "n_lt (Fin a) PInf = True"
| "n_lt (Fin a) NInf = False"
| "n_lt PInf b = False"
| "n_lt NInf (Fin b) = True"
| "n_lt NInf PInf = True"
| "n_lt NInf NInf = False"
| "n_lt NInf NaN = False"
| "n_lt NaN b = False"
| "n_lt a NaN = False"

text \<open>\<open>a > b\<close>\<close>

definition n_gt :: "number \<Rightarrow> number \<Rightarrow> bool" where
  "n_gt a b = n_lt b a"

text \<open>\<open>Math.min(a, b)\<close> and \<open>Math.max(a, b)\<close>: NaN if an argument is NaN.\<close>

definition Math_min :: "number \<Rightarrow> number \<Rightarrow> number" where
  "Math_min a b = (if a = NaN \<or> b = NaN then NaN else if n_lt b a then b else a)"

definition Math_max :: "number \<Rightarrow> number \<Rightarrow> number" where
  "Math_max a b = (if a = NaN \<or> b = NaN then NaN else if n_lt a b then b else a)"

text \<open>
  \<open>Math.max(...xs)\<close> and \<open>Math.min(...xs)\<close> on a spread array: with no argument they
  are \<open>-Infinity\<close> and \<open>Infinity\<close>.
\<close>

definition Math_max_list :: "number list \<Rightarrow> number" where
  "Math_max_list xs = foldl Math_max NInf xs"

definition Math_min_list :: "number list \<Rightarrow> number" where
  "Math_min_list xs = foldl Math_min PInf xs"


section \<open>Data model\<close>

record 'd TreemapItem =
  item_id :: string
  item_weight :: number
  item_data :: "'d option"

record 'd TreemapRect =
  rect_id :: string
  rect_x :: number
  rect_y :: number
  rect_width :: number
  rect_height :: number
  rect_data :: "'d option"

record Container =
  cont_x :: number
  cont_y :: number
  cont_width :: number
  cont_height :: number


section \<open>The layout engine\<close>

text \<open>\<open>row.reduce((acc, item) => acc + item.weight, 0)\<close>\<close>

definition sum_weight :: "'d TreemapItem list \<Rightarrow> number" where
  "sum_weight row = foldl (\<lambda>acc item. n_add acc (item_weight item)) (Fin 0) row"

definition worst :: "'d TreemapItem list \<Rightarrow> number \<Rightarrow> number" where
  "worst row width =
     (let sum = sum_weight row;
          rowMax = Math_max_list (map item_weight row);
          rowMin = Math_min_list (map item_weight row)
      in Math_max
           (n_div (n_mul (n_mul width width) rowMax) (n_mul sum sum))
           (n_div (n_mul sum sum) (n_mul (n_mul width width) rowMin)))"

definition normalize :: "'d TreemapItem list \<Rightarrow> number \<Rightarrow> 'd TreemapItem list" where
  "normalize items area =
     (let totalWeight = sum_weight items
      in map (\<lambda>item. item\<lparr>item_weight := n_mul (n_div (item_weight item) totalWeight) area\<rparr>)
           items)"

text \<open>
  The loop of \<open>layoutRow\<close>: one rectangle per item, at the running \<open>offsetX\<close>, all at
  the container's \<open>y\<close> and of height \<open>rowHeight\<close>.
\<close>

fun layoutRow_loop ::
  "'d TreemapItem list \<Rightarrow> number \<Rightarrow> number \<Rightarrow> number \<Rightarrow> 'd TreemapRect list" where
  "layoutRow_loop [] rowHeight y offsetX = []"
| "layoutRow_loop (item # row) rowHeight y offsetX =
     (let rectWidth = n_div (item_weight item) rowHeight
      in \<lparr>rect_id = item_id item, rect_x = offsetX, rect_y = y, rect_width = rectWidth,
           rect_height = rowHeight, rect_data = item_data item\<rparr>
         # layoutRow_loop row rowHeight y (n_add offsetX rectWidth))"

text \<open>The result \<open>{rects, remaining}\<close> is the pair \<open>(rects, remaining)\<close>.\<close>

definition layoutRow ::
  "'d TreemapItem list \<Rightarrow> number \<Rightarrow> Container \<Rightarrow> 'd TreemapRect list \<times> Container" where
  "layoutRow row width container =
     (let sum = sum_weight row;
          rowHeight = n_div sum width;
          rects = layoutRow_loop row rowHeight (cont_y container) (cont_x container);
          remaining = \<lparr>cont_x = cont_x container,
                       cont_y = n_add (cont_y container) rowHeight,
                       cont_width = cont_width container,
                       cont_height = n_sub (cont_height container) rowHeight\<rparr>
      in (rects, remaining))"

text \<open>
  \<open>squarify\<close>: \<open>rects.push(...rowRects)\<close> appends to the one array that every call
  passes on and the last call returns.
\<close>

function squarify ::
  "'d TreemapItem list \<Rightarrow> 'd TreemapItem list \<Rightarrow> Container \<Rightarrow> 'd TreemapRect list
     \<Rightarrow> 'd TreemapRect list" where
  "squarify [] row container rects =
     (if row \<noteq> []
      then rects @ fst (layoutRow row (Math_min (cont_width container) (cont_height container))
                          container)
      else rects)"
| "squarify (item # remaining) row container rects =
     (if row = [] then squarify remaining [item] container rects
      else if n_lt (worst (row @ [item]) (Math_min (cont_width container) (cont_height container)))
                   (worst row (Math_min (cont_width container) (cont_height container)))
              \<or> row = []
      then squarify remaining (row @ [item]) container rects
      else squarify (item # remaining) []
             (snd (layoutRow row (Math_min (cont_width container) (cont_height container))
                     container))
             (rects @ fst (layoutRow row (Math_min (cont_width container) (cont_height container))
                             container)))"
  by pat_completeness auto
termination
  by (relation "measure (\<lambda>(items, row, container, rects).
                   2 * length items + (if row = [] then 0 else 1))") auto

text \<open>
  \<open>[...normalized].sort((a, b) => b.weight - a.weight)\<close>: the sort is stable, and a
  comparator result that is not positive (zero, negative or NaN) leaves \<open>a\<close> before \<open>b\<close>.
\<close>

definition compare_weight :: "'d TreemapItem \<Rightarrow> 'd TreemapItem \<Rightarrow> number" where
  "compare_weight a b = n_sub (item_weight b) (item_weight a)"

fun insert_item :: "'d TreemapItem \<Rightarrow> 'd TreemapItem list \<Rightarrow> 'd TreemapItem list" where
  "insert_item a [] = [a]"
| "insert_item a (b # bs) =
     (if n_gt (compare_weight a b) (Fin 0) then b # insert_item a bs else a # b # bs)"

fun sort_items :: "'d TreemapItem list \<Rightarrow> 'd TreemapItem list" where
  "sort_items [] = []"
| "sort_items (a # as) = insert_item a (sort_items as)"

definition treemap :: "'d TreemapItem list \<Rightarrow> number \<Rightarrow> number \<Rightarrow> 'd TreemapRect list" where
  "treemap items containerWidth containerHeight =
     (if items = [] then []
      else let validItems = filter (\<lambda>item. n_gt (item_weight item) (Fin 0)) items
           in if validItems = [] then []
              else let area = n_mul containerWidth containerHeight;
                       normalized = normalize validItems area;
                       sorted = sort_items normalized;
                       container = \<lparr>cont_x = Fin 0, cont_y = Fin 0,
                                    cont_width = containerWidth,
                                    cont_height = containerHeight\<rparr>
                   in squarify sorted [] container [])"


section \<open>Double precision\<close>

text \<open>
  The result of an operation of the source is the exact result rounded to the nearest
  double, ties to the even significand: 53 significant bits, exponents from -1022 to 1023,
  subnormal numbers below, an infinity beyond the largest double.
\<close>

text \<open>The integer nearest to \<open>q\<close>, the even one of two that are equally near.\<close>

definition round_half_even :: "real \<Rightarrow> int" where
  "round_half_even q =
     (let f = \<lfloor>q\<rfloor>
      in if q - of_int f < 1 / 2 then f
         else if 1 / 2 < q - of_int f then f + 1
         else if even f then f else f + 1)"

text \<open>The exponent \<open>e\<close> with \<open>2^e \<le> |x| < 2^(e+1)\<close>, by counting bits.\<close>

definition binary_exponent :: "real \<Rightarrow> int" where
  "binary_exponent x =
     (if 1 \<le> \<bar>x\<bar> then bitlen \<lfloor>\<bar>x\<bar>\<rfloor> - 1 else - bitlen (\<lceil>1 / \<bar>x\<bar>\<rceil> - 1))"

text \<open>\<open>2^e\<close> for an integer exponent.\<close>

definition pow2 :: "int \<Rightarrow> real" where
  "pow2 e = (if 0 \<le> e then 2 ^ nat e else 1 / 2 ^ nat (- e))"

text \<open>
  Rounding a real to a double: the spacing of the doubles around \<open>x\<close> is \<open>ulp\<close>, the
  result is the nearest multiple of it, or an infinity when that needs an exponent above
  1023.
\<close>

definition to_double :: "real \<Rightarrow> number" where
  "to_double x =
     (let ulp = pow2 (max (- 1022) (binary_exponent x) - 52);
          m = of_int (round_half_even (x / ulp)) * ulp
      in if 1023 < binary_exponent m then inf_of (0 < x) else Fin m)"

text \<open>The operations \<open>+\<close>, \<open>*\<close> and \<open>/\<close> of the source: the exact result, rounded.\<close>

fun rounded :: "number \<Rightarrow> number" where
  "rounded (Fin x) = to_double x"
| "rounded PInf = PInf"
| "rounded NInf = NInf"
| "rounded NaN = NaN"

definition d_add :: "number \<Rightarrow> number \<Rightarrow> number" where
  "d_add a b = rounded (n_add a b)"

definition d_mul :: "number \<Rightarrow> number \<Rightarrow> number" where
  "d_mul a b = rounded (n_mul a b)"

definition d_div :: "number \<Rightarrow> number \<Rightarrow> number" where
  "d_div a b = rounded (n_div a b)"

text \<open>
  \<open>normalize\<close> and the \<open>reduce\<close> that adds weights up, on doubles: the same code as
  \<open>normalize\<close> and \<open>sum_weight\<close> above, every operation rounded.
\<close>

definition sum_weight_double :: "'d TreemapItem list \<Rightarrow> number" where
  "sum_weight_double row = foldl (\<lambda>acc item. d_add acc (item_weight item)) (Fin 0) row"

definition normalize_double :: "'d TreemapItem list \<Rightarrow> number \<Rightarrow> 'd TreemapItem list" where
  "normalize_double items area =
     (let totalWeight = sum_weight_double items
      in map (\<lambda>item. item\<lparr>item_weight := d_mul (d_div (item_weight item) totalWeight) area\<rparr>)
           items)"


section \<open>Measuring a layout\<close>

text \<open>\<open>a <= b\<close>: false as soon as one side is NaN.\<close>

definition n_le :: "number \<Rightarrow> number \<Rightarrow> bool" where
  "n_le a b = (a \<noteq> NaN \<and> b \<noteq> NaN \<and> \<not> n_lt b a)"

text \<open>The area \<open>r.width * r.height\<close> of a rectangle, and the total the tests add up.\<close>

definition rect_area :: "'d TreemapRect \<Rightarrow> number" where
  "rect_area r = n_mul (rect_width r) (rect_height r)"

definition total_area :: "'d TreemapRect list \<Rightarrow> number" where
  "total_area rects = foldl (\<lambda>sum r. n_add sum (rect_area r)) (Fin 0) rects"

text \<open>A rectangle lies in the container \<open>[0, width] x [0, height]\<close>.\<close>

definition inside_container :: "'d TreemapRect \<Rightarrow> number \<Rightarrow> number \<Rightarrow> bool" where
  "inside_container r containerWidth containerHeight =
     (n_le (Fin 0) (rect_x r) \<and> n_le (Fin 0) (rect_y r)
      \<and> n_le (n_add (rect_x r) (rect_width r)) containerWidth
      \<and> n_le (n_add (rect_y r) (rect_height r)) containerHeight)"


section \<open>Termination of the recursion, with a call counter\<close>

text \<open>
  \<open>squarify\<close> again, every call paying one unit of fuel: \<open>None\<close> stands for a recursion
  that has not returned within the given number of calls.
\<close>

fun squarify_fuel ::
  "nat \<Rightarrow> 'd TreemapItem list \<Rightarrow> 'd TreemapItem list \<Rightarrow> Container \<Rightarrow> 'd TreemapRect list
     \<Rightarrow> 'd TreemapRect list option" where
  "squarify_fuel 0 items row container rects = None"
| "squarify_fuel (Suc n) [] row container rects =
     Some (if row \<noteq> []
           then rects @ fst (layoutRow row (Math_min (cont_width container) (cont_height container))
                               container)
           else rects)"
| "squarify_fuel (Suc n) (item # remaining) row container rects =
     (if row = [] then squarify_fuel n remaining [item] container rects
      else if n_lt (worst (row @ [item]) (Math_min (cont_width container) (cont_height container)))
                   (worst row (Math_min (cont_width container) (cont_height container)))
              \<or> row = []
      then squarify_fuel n remaining (row @ [item]) container rects
      else squarify_fuel n (item # remaining) []
             (snd (layoutRow row (Math_min (cont_width container) (cont_height container))
                     container))
             (rects @ fst (layoutRow row (Math_min (cont_width container) (cont_height container))
                             container)))"

definition treemap_fuel ::
  "nat \<Rightarrow> 'd TreemapItem list \<Rightarrow> number \<Rightarrow> number \<Rightarrow> 'd TreemapRect list option" where
  "treemap_fuel n items containerWidth containerHeight =
     (if items = [] then Some []
      else let validItems = filter (\<lambda>item. n_gt (item_weight item) (Fin 0)) items
           in if validItems = [] then Some []
              else let area = n_mul containerWidth containerHeight;
                       normalized = normalize validItems area;
                       sorted = sort_items normalized;
                       container = \<lparr>cont_x = Fin 0, cont_y = Fin 0,
                                    cont_width = containerWidth,
                                    cont_height = containerHeight\<rparr>
                   in squarify_fuel n sorted [] container [])"


section \<open>Basic facts\<close>

lemma n_lt_irrefl: "\<not> n_lt a a"
  by (cases a) simp_all

lemma length_layoutRow_loop: "length (layoutRow_loop row rowHeight y offsetX) = length row"
  by (induction row arbitrary: offsetX) (simp_all add: Let_def)

lemma tags_layoutRow_loop:
  "map (\<lambda>r. (rect_id r, rect_data r)) (layoutRow_loop row rowHeight y offsetX)
     = map (\<lambda>i. (item_id i, item_data i)) row"
  by (induction row arbitrary: offsetX) (simp_all add: Let_def)

lemma tags_layoutRow:
  "map (\<lambda>r. (rect_id r, rect_data r)) (fst (layoutRow row width container))
     = map (\<lambda>i. (item_id i, item_data i)) row"
  by (simp add: layoutRow_def Let_def tags_layoutRow_loop)

text \<open>The rectangles come out in the order in which the items went in.\<close>

lemma tags_squarify:
  "map (\<lambda>r. (rect_id r, rect_data r)) (squarify items row container rects)
     = map (\<lambda>r. (rect_id r, rect_data r)) rects
       @ map (\<lambda>i. (item_id i, item_data i)) row
       @ map (\<lambda>i. (item_id i, item_data i)) items"
proof (induction items row container rects rule: squarify.induct)
  case (1 row container rects)
  show ?case by (simp add: tags_layoutRow)
next
  case (2 item remaining row container rects)
  show ?case
  proof (cases "row = []")
    case True
    with 2 show ?thesis by simp
  next
    case False
    show ?thesis
    proof (cases "n_lt (worst (row @ [item]) (Math_min (cont_width container) (cont_height container)))
                       (worst row (Math_min (cont_width container) (cont_height container)))")
      case True
      with False 2 show ?thesis by simp
    next
      case lt: False
      with False 2 show ?thesis by (simp add: tags_layoutRow)
    qed
  qed
qed

lemma mset_insert_item: "mset (insert_item a bs) = add_mset a (mset bs)"
  by (induction bs) simp_all

lemma mset_sort_items: "mset (sort_items as) = mset as"
  by (induction as) (simp_all add: mset_insert_item)

lemma tags_normalize:
  "map (\<lambda>i. (item_id i, item_data i)) (normalize items area)
     = map (\<lambda>i. (item_id i, item_data i)) items"
  by (simp add: normalize_def Let_def)

lemma length_normalize: "length (normalize items area) = length items"
  by (simp add: normalize_def Let_def)

lemma squarify_fuel_enough:
  "2 * length items + (if row = [] then 0 else 1) < n
     \<Longrightarrow> squarify_fuel n items row container rects = Some (squarify items row container rects)"
proof (induction n arbitrary: items row container rects)
  case 0
  then show ?case by simp
next
  case (Suc n)
  show ?case
  proof (cases items)
    case Nil
    then show ?thesis by simp
  next
    case (Cons item remaining)
    show ?thesis
    proof (cases "row = []")
      case True
      have "2 * length remaining + (if [item] = [] then 0 else 1) < n"
        using Suc.prems Cons True by simp
      from Suc.IH [OF this] show ?thesis
        using Cons True by simp
    next
      case False
      have ext: "2 * length remaining + (if row @ [item] = [] then 0 else 1) < n"
        using Suc.prems Cons False by simp
      have fin: "2 * length (item # remaining) + (if ([]::'a TreemapItem list) = [] then 0 else 1) < n"
        using Suc.prems Cons False by simp
      show ?thesis
        using Cons False Suc.IH [OF ext] Suc.IH [OF fin] by simp
    qed
  qed
qed

lemma squarify_prepend:
  "squarify items row container (pre @ rects) = pre @ squarify items row container rects"
proof (induction items row container rects arbitrary: pre rule: squarify.induct)
  case (1 row container rects)
  show ?case by simp
next
  case (2 item remaining row container rects)
  let ?side = "Math_min (cont_width container) (cont_height container)"
  show ?case
  proof (cases "row = []")
    case True
    with 2(1) [OF True, of pre] show ?thesis by simp
  next
    case False
    show ?thesis
    proof (cases "n_lt (worst (row @ [item]) ?side) (worst row ?side)")
      case True
      with False 2(2) [of pre] show ?thesis by simp
    next
      case lt: False
      have "squarify (item # remaining) [] (snd (layoutRow row ?side container))
                 (pre @ (rects @ fst (layoutRow row ?side container)))
             = pre @ squarify (item # remaining) [] (snd (layoutRow row ?side container))
                        (rects @ fst (layoutRow row ?side container))"
        using 2(3) [of pre] False lt by blast
      then show ?thesis
        using False lt by (simp del: squarify.simps add: squarify.simps(2) [of item remaining row])
    qed
  qed
qed

lemma squarify_acc:
  "squarify items row container rects = rects @ squarify items row container []"
  using squarify_prepend [of items row container rects "[]"] by simp

text \<open>An open row is laid out together with some of the items that follow it.\<close>

lemma squarify_closes_row:
  "row \<noteq> [] \<Longrightarrow>
   \<exists>k \<le> length items.
     squarify items row container []
       = fst (layoutRow (row @ take k items)
                (Math_min (cont_width container) (cont_height container)) container)
         @ squarify (drop k items) []
             (snd (layoutRow (row @ take k items)
                     (Math_min (cont_width container) (cont_height container)) container)) []"
proof (induction items arbitrary: row)
  case Nil
  then show ?case by simp
next
  case (Cons item remaining)
  let ?side = "Math_min (cont_width container) (cont_height container)"
  show ?case
  proof (cases "n_lt (worst (row @ [item]) ?side) (worst row ?side)")
    case True
    have "row @ [item] \<noteq> []" by simp
    from Cons.IH [OF this] obtain k where k: "k \<le> length remaining"
      and eq: "squarify remaining (row @ [item]) container []
         = fst (layoutRow ((row @ [item]) @ take k remaining) ?side container)
           @ squarify (drop k remaining) []
               (snd (layoutRow ((row @ [item]) @ take k remaining) ?side container)) []"
      by blast
    have "squarify (item # remaining) row container []
        = squarify remaining (row @ [item]) container []"
      using Cons.prems True by simp
    with eq have "squarify (item # remaining) row container []
         = fst (layoutRow (row @ take (Suc k) (item # remaining)) ?side container)
           @ squarify (drop (Suc k) (item # remaining)) []
               (snd (layoutRow (row @ take (Suc k) (item # remaining)) ?side container)) []"
      by simp
    moreover have "Suc k \<le> length (item # remaining)" using k by simp
    ultimately show ?thesis by blast
  next
    case False
    have "squarify (item # remaining) row container []
        = squarify (item # remaining) [] (snd (layoutRow row ?side container))
            (fst (layoutRow row ?side container))"
      using Cons.prems False by (simp del: squarify.simps add: squarify.simps(2) [of item remaining row])
    also have "\<dots> = fst (layoutRow row ?side container)
        @ squarify (item # remaining) [] (snd (layoutRow row ?side container)) []"
      by (rule squarify_acc)
    finally have "squarify (item # remaining) row container []
         = fst (layoutRow (row @ take 0 (item # remaining)) ?side container)
           @ squarify (drop 0 (item # remaining)) []
               (snd (layoutRow (row @ take 0 (item # remaining)) ?side container)) []"
      by simp
    then show ?thesis by blast
  qed
qed

text \<open>The exponent brackets the number, and rounding moves by at most half a unit.\<close>

lemma pow2_pos_exp: "0 \<le> e \<Longrightarrow> pow2 e = 2 ^ nat e"
  by (simp add: pow2_def)

lemma pow2_neg_exp: "0 < k \<Longrightarrow> pow2 (- k) = 1 / 2 ^ nat k"
  by (simp add: pow2_def)

lemma pow2_neg_exp_succ: "0 < k \<Longrightarrow> pow2 (- k + 1) = 1 / 2 ^ nat (k - 1)"
proof (cases "k = 1")
  case True
  then show ?thesis by (simp add: pow2_def)
next
  case False
  assume "0 < k"
  with False have "\<not> 0 \<le> - k + 1" and "- (- k + 1) = k - 1" by simp_all
  then show ?thesis by (simp only: pow2_def if_False)
qed

lemma recip_le: "0 < x \<Longrightarrow> 1 / x \<le> P \<Longrightarrow> 0 < P \<Longrightarrow> 1 / P \<le> (x::real)"
  by (simp add: field_simps)

lemma recip_less: "0 < x \<Longrightarrow> Q < 1 / x \<Longrightarrow> 0 < Q \<Longrightarrow> x < 1 / (Q::real)"
  by (simp add: field_simps)

lemma binary_exponent_large:
  assumes "1 \<le> \<bar>x\<bar>"
  shows "pow2 (binary_exponent x) \<le> \<bar>x\<bar> \<and> \<bar>x\<bar> < pow2 (binary_exponent x + 1)"
proof -
  define n where "n = \<lfloor>\<bar>x\<bar>\<rfloor>"
  define b where "b = bitlen n"
  have n: "0 < n" using assms by (simp add: n_def)
  from bitlen_bounds [OF n]
  have lo: "2 ^ nat (b - 1) \<le> n" and hi: "n < 2 ^ nat b" by (simp_all add: b_def)
  have b1: "1 \<le> b" using n by (simp add: b_def bitlen_alt_def)
  have "real_of_int (2 ^ nat (b - 1)) \<le> real_of_int n"
    using lo by (simp only: of_int_le_iff)
  then have l1: "(2::real) ^ nat (b - 1) \<le> real_of_int n" by simp
  have "real_of_int n \<le> \<bar>x\<bar>" by (simp add: n_def)
  with l1 have L: "2 ^ nat (b - 1) \<le> \<bar>x\<bar>" by linarith
  have "n + 1 \<le> 2 ^ nat b" using hi by simp
  then have "real_of_int (n + 1) \<le> real_of_int (2 ^ nat b)"
    by (simp only: of_int_le_iff)
  then have ub: "real_of_int n + 1 \<le> 2 ^ nat b" by simp
  have "\<bar>x\<bar> < real_of_int n + 1" unfolding n_def by linarith
  with ub have U: "\<bar>x\<bar> < 2 ^ nat b" by linarith
  have e: "binary_exponent x = b - 1"
    using assms by (simp add: binary_exponent_def b_def n_def)
  have p1: "pow2 (b - 1) = 2 ^ nat (b - 1)" using b1 by (simp add: pow2_pos_exp)
  have p2: "pow2 (b - 1 + 1) = 2 ^ nat b" using b1 by (simp add: pow2_pos_exp)
  show ?thesis
    using L U by (simp only: e p1 p2 simp_thms)
qed

lemma binary_exponent_small:
  assumes "x \<noteq> 0" and "\<not> 1 \<le> \<bar>x\<bar>"
  shows "pow2 (binary_exponent x) \<le> \<bar>x\<bar> \<and> \<bar>x\<bar> < pow2 (binary_exponent x + 1)"
proof -
  define N where "N = \<lceil>1 / \<bar>x\<bar>\<rceil>"
  define b where "b = bitlen (N - 1)"
  have x: "0 < \<bar>x\<bar>" "\<bar>x\<bar> < 1" using assms by simp_all
  then have y: "1 < 1 / \<bar>x\<bar>" by simp
  have up: "1 / \<bar>x\<bar> \<le> real_of_int N" unfolding N_def by (rule le_of_int_ceiling)
  have dn: "real_of_int N - 1 < 1 / \<bar>x\<bar>" unfolding N_def by linarith
  from y up have "1 < real_of_int N" by linarith
  then have N: "0 < N - 1" by simp
  from bitlen_bounds [OF N]
  have lo: "2 ^ nat (b - 1) \<le> N - 1" and hi: "N - 1 < 2 ^ nat b"
    by (simp_all add: b_def)
  have b1: "0 < b" using N by (simp add: b_def bitlen_alt_def)
  have "N \<le> 2 ^ nat b" using hi by simp
  then have "real_of_int N \<le> real_of_int (2 ^ nat b)"
    by (simp only: of_int_le_iff)
  then have nb: "real_of_int N \<le> 2 ^ nat b" by simp
  with up have "1 / \<bar>x\<bar> \<le> 2 ^ nat b" by linarith
  with x(1) have L: "1 / 2 ^ nat b \<le> \<bar>x\<bar>"
    by (rule recip_le) simp
  have "real_of_int (2 ^ nat (b - 1)) \<le> real_of_int (N - 1)"
    using lo by (simp only: of_int_le_iff)
  then have lb: "2 ^ nat (b - 1) \<le> real_of_int N - 1" by simp
  with dn have "2 ^ nat (b - 1) < 1 / \<bar>x\<bar>" by linarith
  with x(1) have U: "\<bar>x\<bar> < 1 / 2 ^ nat (b - 1)"
    by (rule recip_less) simp
  have e: "binary_exponent x = - b"
    using assms(2) by (simp add: binary_exponent_def b_def N_def)
  show ?thesis
    using L U by (simp only: e pow2_neg_exp [OF b1] pow2_neg_exp_succ [OF b1] simp_thms)
qed

lemma binary_exponent_bounds:
  "x \<noteq> 0 \<Longrightarrow> pow2 (binary_exponent x) \<le> \<bar>x\<bar> \<and> \<bar>x\<bar> < pow2 (binary_exponent x + 1)"
  using binary_exponent_large [of x] binary_exponent_small [of x] by blast

lemma round_half_even_nearest: "\<bar>real_of_int (round_half_even q) - q\<bar> \<le> 1 / 2"
  unfolding round_half_even_def Let_def by (simp split: if_splits)




lemma Math_min_Fin: "Math_min (Fin a) (Fin b) = Fin (min a b)"
  by (auto simp add: Math_min_def min_def)





lemma sum_list_pos_real: "ws \<noteq> [] \<Longrightarrow> \<forall>w \<in> set ws. (0::real) < w \<Longrightarrow> 0 < sum_list ws"
  by (induction ws) (auto intro: add_pos_nonneg sum_list_nonneg less_imp_le)

lemma sum_list_rescale:
  "sum_list (map (\<lambda>w. w / t * a) ws) = sum_list ws / t * (a::real)"
  by (induction ws) (simp_all add: add_divide_distrib distrib_right)

text \<open>
  One item in a container: the rectangle is as wide as the shorter side and as high as
  the longer one, whichever way the container lies.
\<close>

lemma treemap_single_item:
  assumes "0 < a" and "0 < w" and "0 < h"
  shows "treemap [\<lparr>item_id = i, item_weight = Fin a, item_data = d\<rparr>] (Fin w) (Fin h)
     = [\<lparr>rect_id = i, rect_x = Fin 0, rect_y = Fin 0, rect_width = Fin (min w h),
          rect_height = Fin (max w h), rect_data = d\<rparr>]"
proof -
  have side: "Math_min (Fin w) (Fin h) = Fin (min w h)"
    by (rule Math_min_Fin)
  have q: "w * h / min w h = max w h" "w * h / max w h = min w h"
    using assms(2,3) by (simp_all add: min_def max_def)
  have nz: "min w h \<noteq> 0" "max w h \<noteq> 0"
    using assms(2,3) by (simp_all add: min_def max_def)
  show ?thesis
    using assms(1) q nz
    by (simp add: treemap_def n_gt_def normalize_def sum_weight_def layoutRow_def side Let_def)
qed


section \<open>Claims\<close>

text \<open>
  Claim C1 (the rectangles partition the container). The code does not do this: on the
  items of weights 9 and 3 in a 400 by 400 container, the row of the second item is laid
  out along a side of 100 inside a strip that is 400 wide, so its rectangle is 100 wide
  and 400 high, starts at \<open>y = 300\<close> and ends at \<open>y = 700\<close>, outside the container.
\<close>

theorem treemap_scenario_B_leaves_container:
  "treemap [\<lparr>item_id = ''high'', item_weight = Fin 9, item_data = (None::unit option)\<rparr>,
            \<lparr>item_id = ''low'', item_weight = Fin 3, item_data = None\<rparr>] (Fin 400) (Fin 400)
     = [\<lparr>rect_id = ''high'', rect_x = Fin 0, rect_y = Fin 0, rect_width = Fin 400,
          rect_height = Fin 300, rect_data = None\<rparr>,
        \<lparr>rect_id = ''low'', rect_x = Fin 0, rect_y = Fin 300, rect_width = Fin 100,
          rect_height = Fin 400, rect_data = None\<rparr>]
   \<and> \<not> inside_container
         \<lparr>rect_id = ''low'', rect_x = Fin 0, rect_y = Fin 300, rect_width = Fin 100,
           rect_height = Fin 400, rect_data = (None::unit option)\<rparr> (Fin 400) (Fin 400)"
  by code_simp

text \<open>
  Claim C2 (the areas add up to \<open>width * height\<close>). The code does not do this: on four
  items of weight 1 in a 400 by 400 container, the first three rectangles use up the whole
  height, the last row is laid out in a container of height 0, and its rectangle is 0 wide
  and infinitely high; the total of \<open>r.width * r.height\<close> is NaN.
\<close>

theorem treemap_equal_weights_total_area_NaN:
  "treemap [\<lparr>item_id = ''1'', item_weight = Fin 1, item_data = (None::unit option)\<rparr>,
            \<lparr>item_id = ''2'', item_weight = Fin 1, item_data = None\<rparr>,
            \<lparr>item_id = ''3'', item_weight = Fin 1, item_data = None\<rparr>,
            \<lparr>item_id = ''4'', item_weight = Fin 1, item_data = None\<rparr>] (Fin 400) (Fin 400)
     = [\<lparr>rect_id = ''1'', rect_x = Fin 0, rect_y = Fin 0, rect_width = Fin 200,
          rect_height = Fin 200, rect_data = None\<rparr>,
        \<lparr>rect_id = ''2'', rect_x = Fin 200, rect_y = Fin 0, rect_width = Fin 200,
          rect_height = Fin 200, rect_data = None\<rparr>,
        \<lparr>rect_id = ''3'', rect_x = Fin 0, rect_y = Fin 200, rect_width = Fin 200,
          rect_height = Fin 200, rect_data = None\<rparr>,
        \<lparr>rect_id = ''4'', rect_x = Fin 0, rect_y = Fin 400, rect_width = Fin 0,
          rect_height = PInf, rect_data = None\<rparr>]
   \<and> total_area
        (treemap [\<lparr>item_id = ''1'', item_weight = Fin 1, item_data = (None::unit option)\<rparr>,
                  \<lparr>item_id = ''2'', item_weight = Fin 1, item_data = None\<rparr>,
                  \<lparr>item_id = ''3'', item_weight = Fin 1, item_data = None\<rparr>,
                  \<lparr>item_id = ''4'', item_weight = Fin 1, item_data = None\<rparr>] (Fin 400) (Fin 400))
     = NaN"
  by code_simp

text \<open>
  Claim C3 (each rectangle's share of the container area is its item's share of the
  weight). The code does not do this: on two items of weight 1 in a 200 by 100 container,
  the first rectangle has half the area, the second has width 0 and height \<open>Infinity\<close>,
  and its share \<open>area / (200 * 100)\<close> is NaN instead of one half.
\<close>

theorem treemap_wide_container_share_NaN:
  "map (\<lambda>r. n_div (rect_area r) (n_mul (Fin 200) (Fin 100)))
     (treemap [\<lparr>item_id = ''1'', item_weight = Fin 1, item_data = (None::unit option)\<rparr>,
               \<lparr>item_id = ''2'', item_weight = Fin 1, item_data = None\<rparr>] (Fin 200) (Fin 100))
     = [Fin (1/2), NaN]
   \<and> treemap [\<lparr>item_id = ''1'', item_weight = Fin 1, item_data = (None::unit option)\<rparr>,
              \<lparr>item_id = ''2'', item_weight = Fin 1, item_data = None\<rparr>] (Fin 200) (Fin 100)
     = [\<lparr>rect_id = ''1'', rect_x = Fin 0, rect_y = Fin 0, rect_width = Fin 100,
          rect_height = Fin 100, rect_data = None\<rparr>,
        \<lparr>rect_id = ''2'', rect_x = Fin 0, rect_y = Fin 100, rect_width = Fin 0,
          rect_height = PInf, rect_data = None\<rparr>]"
  by code_simp

text \<open>
  Claim C4 (one item fills the container exactly). The code does not do this in a
  container that is wider than high: one item in a 400 by 300 container gets the rectangle
  of width 300 and height 400.
\<close>

theorem treemap_single_item_wide_container:
  "treemap [\<lparr>item_id = ''1'', item_weight = Fin 1, item_data = (None::unit option)\<rparr>]
     (Fin 400) (Fin 300)
     = [\<lparr>rect_id = ''1'', rect_x = Fin 0, rect_y = Fin 0, rect_width = Fin 300,
          rect_height = Fin 400, rect_data = None\<rparr>]"
  by code_simp

text \<open>
  Claim C5 (weights 3, 2, 1 in a 600 by 800 container give three rectangles of areas in
  ratio 3:2:1 that sum to 480000). The code returns three rectangles of areas 240000,
  160000 and NaN: the third is 0 wide and infinitely high, and the total is NaN.
\<close>

theorem treemap_scenario_A_third_area_NaN:
  "treemap [\<lparr>item_id = ''1'', item_weight = Fin 3, item_data = (None::unit option)\<rparr>,
            \<lparr>item_id = ''2'', item_weight = Fin 2, item_data = None\<rparr>,
            \<lparr>item_id = ''3'', item_weight = Fin 1, item_data = None\<rparr>] (Fin 600) (Fin 800)
     = [\<lparr>rect_id = ''1'', rect_x = Fin 0, rect_y = Fin 0, rect_width = Fin 600,
          rect_height = Fin 400, rect_data = None\<rparr>,
        \<lparr>rect_id = ''2'', rect_x = Fin 0, rect_y = Fin 400, rect_width = Fin 400,
          rect_height = Fin 400, rect_data = None\<rparr>,
        \<lparr>rect_id = ''3'', rect_x = Fin 0, rect_y = Fin 800, rect_width = Fin 0,
          rect_height = PInf, rect_data = None\<rparr>]
   \<and> map rect_area
        (treemap [\<lparr>item_id = ''1'', item_weight = Fin 3, item_data = (None::unit option)\<rparr>,
                  \<lparr>item_id = ''2'', item_weight = Fin 2, item_data = None\<rparr>,
                  \<lparr>item_id = ''3'', item_weight = Fin 1, item_data = None\<rparr>] (Fin 600) (Fin 800))
     = [Fin 240000, Fin 160000, NaN]
   \<and> total_area
        (treemap [\<lparr>item_id = ''1'', item_weight = Fin 3, item_data = (None::unit option)\<rparr>,
                  \<lparr>item_id = ''2'', item_weight = Fin 2, item_data = None\<rparr>,
                  \<lparr>item_id = ''3'', item_weight = Fin 1, item_data = None\<rparr>] (Fin 600) (Fin 800))
     = NaN"
  by code_simp

text \<open>
  Claim C6 (the decision of \<open>squarify\<close> on a non-empty open row). When the worst ratio
  of the row with the next item is strictly less than that of the row alone, the item
  joins the open row: the output continues with one laid-out row that holds the open row,
  the item and possibly some of the items after it. Otherwise, and so on a tie, the open
  row is laid out as it is, and the next laid-out row starts with the item, in the
  container that remains.
\<close>

theorem squarify_extends_row_iff_strictly_better:
  fixes row :: "'d TreemapItem list" and c :: Container
  assumes "row \<noteq> []"
  defines "side \<equiv> Math_min (cont_width c) (cont_height c)"
  defines "c' \<equiv> snd (layoutRow row side c)"
  defines "side' \<equiv> Math_min (cont_width c') (cont_height c')"
  shows "(n_lt (worst (row @ [item]) side) (worst row side)
          \<longrightarrow> (\<exists>k \<le> length remaining.
                 squarify (item # remaining) row c rects
                   = rects @ fst (layoutRow (row @ item # take k remaining) side c)
                     @ squarify (drop k remaining) []
                         (snd (layoutRow (row @ item # take k remaining) side c)) []))
       \<and> (\<not> n_lt (worst (row @ [item]) side) (worst row side)
          \<longrightarrow> (\<exists>k \<le> length remaining.
                 squarify (item # remaining) row c rects
                   = rects @ fst (layoutRow row side c)
                     @ fst (layoutRow (item # take k remaining) side' c')
                     @ squarify (drop k remaining) []
                         (snd (layoutRow (item # take k remaining) side' c')) []))
       \<and> (worst (row @ [item]) side = worst row side
          \<longrightarrow> (\<exists>k \<le> length remaining.
                 squarify (item # remaining) row c rects
                   = rects @ fst (layoutRow row side c)
                     @ fst (layoutRow (item # take k remaining) side' c')
                     @ squarify (drop k remaining) []
                         (snd (layoutRow (item # take k remaining) side' c')) []))"
proof -
  have extend: "\<exists>k \<le> length remaining.
      squarify (item # remaining) row c rects
        = rects @ fst (layoutRow (row @ item # take k remaining) side c)
          @ squarify (drop k remaining) []
              (snd (layoutRow (row @ item # take k remaining) side c)) []"
    if lt: "n_lt (worst (row @ [item]) side) (worst row side)"
  proof -
    have "squarify (item # remaining) row c rects = squarify remaining (row @ [item]) c rects"
      using assms(1) lt by (simp add: side_def)
    also have "\<dots> = rects @ squarify remaining (row @ [item]) c []"
      by (rule squarify_acc)
    finally have step: "squarify (item # remaining) row c rects
        = rects @ squarify remaining (row @ [item]) c []" .
    have "row @ [item] \<noteq> []" by simp
    from squarify_closes_row [OF this, of remaining c]
    obtain k where "k \<le> length remaining"
      and "squarify remaining (row @ [item]) c []
        = fst (layoutRow ((row @ [item]) @ take k remaining) side c)
          @ squarify (drop k remaining) []
              (snd (layoutRow ((row @ [item]) @ take k remaining) side c)) []"
      unfolding side_def by blast
    with step show ?thesis by auto
  qed
  have finalize: "\<exists>k \<le> length remaining.
      squarify (item # remaining) row c rects
        = rects @ fst (layoutRow row side c)
          @ fst (layoutRow (item # take k remaining) side' c')
          @ squarify (drop k remaining) []
              (snd (layoutRow (item # take k remaining) side' c')) []"
    if nlt: "\<not> n_lt (worst (row @ [item]) side) (worst row side)"
  proof -
    have "squarify (item # remaining) row c rects
        = squarify remaining [item] c' (rects @ fst (layoutRow row side c))"
      using assms(1) nlt by (simp add: side_def c'_def)
    also have "\<dots> = (rects @ fst (layoutRow row side c)) @ squarify remaining [item] c' []"
      by (rule squarify_acc)
    finally have step: "squarify (item # remaining) row c rects
        = rects @ fst (layoutRow row side c) @ squarify remaining [item] c' []"
      by simp
    have "[item] \<noteq> []" by simp
    from squarify_closes_row [OF this, of remaining c']
    obtain k where "k \<le> length remaining"
      and "squarify remaining [item] c' []
        = fst (layoutRow ([item] @ take k remaining) side' c')
          @ squarify (drop k remaining) []
              (snd (layoutRow ([item] @ take k remaining) side' c')) []"
      unfolding side'_def by blast
    with step show ?thesis by auto
  qed
  have tie: "\<not> n_lt (worst (row @ [item]) side) (worst row side)"
    if "worst (row @ [item]) side = worst row side"
    using that by (simp add: n_lt_irrefl)
  from extend finalize tie show ?thesis by blast
qed

theorem squarify_tie_witness:
  "[\<lparr>item_id = ''1'', item_weight = Fin (1/2), item_data = (None::unit option)\<rparr>] \<noteq> []
   \<and> worst ([\<lparr>item_id = ''1'', item_weight = Fin (1/2), item_data = (None::unit option)\<rparr>]
              @ [\<lparr>item_id = ''2'', item_weight = Fin (1/2), item_data = None\<rparr>]) (Fin 1) = Fin 2
   \<and> worst [\<lparr>item_id = ''1'', item_weight = Fin (1/2), item_data = (None::unit option)\<rparr>] (Fin 1) = Fin 2
   \<and> squarify [\<lparr>item_id = ''2'', item_weight = Fin (1/2), item_data = None\<rparr>]
        [\<lparr>item_id = ''1'', item_weight = Fin (1/2), item_data = (None::unit option)\<rparr>]
        \<lparr>cont_x = Fin 0, cont_y = Fin 0, cont_width = Fin 1, cont_height = Fin 1\<rparr> []
      = [\<lparr>rect_id = ''1'', rect_x = Fin 0, rect_y = Fin 0, rect_width = Fin 1,
           rect_height = Fin (1/2), rect_data = None\<rparr>,
         \<lparr>rect_id = ''2'', rect_x = Fin 0, rect_y = Fin (1/2), rect_width = Fin (1/2),
           rect_height = Fin 1, rect_data = None\<rparr>]
   \<and> n_lt (worst ([\<lparr>item_id = ''1'', item_weight = Fin 40000, item_data = (None::unit option)\<rparr>]
                    @ [\<lparr>item_id = ''2'', item_weight = Fin 40000, item_data = None\<rparr>]) (Fin 400))
           (worst [\<lparr>item_id = ''1'', item_weight = Fin 40000, item_data = (None::unit option)\<rparr>]
              (Fin 400))
   \<and> squarify [\<lparr>item_id = ''2'', item_weight = Fin 40000, item_data = None\<rparr>]
        [\<lparr>item_id = ''1'', item_weight = Fin 40000, item_data = (None::unit option)\<rparr>]
        \<lparr>cont_x = Fin 0, cont_y = Fin 0, cont_width = Fin 400, cont_height = Fin 400\<rparr> []
      = [\<lparr>rect_id = ''1'', rect_x = Fin 0, rect_y = Fin 0, rect_width = Fin 200,
           rect_height = Fin 200, rect_data = None\<rparr>,
         \<lparr>rect_id = ''2'', rect_x = Fin 200, rect_y = Fin 0, rect_width = Fin 200,
           rect_height = Fin 200, rect_data = None\<rparr>]"
proof -
  let ?a = "\<lparr>item_id = ''1'', item_weight = Fin (1/2), item_data = (None::unit option)\<rparr>"
  let ?b = "\<lparr>item_id = ''2'', item_weight = Fin (1/2), item_data = (None::unit option)\<rparr>"
  let ?c = "\<lparr>cont_x = Fin 0, cont_y = Fin 0, cont_width = Fin 1, cont_height = Fin 1\<rparr>"
  let ?s = "Math_min (cont_width ?c) (cont_height ?c)"
  let ?c' = "snd (layoutRow [?a] ?s ?c)"
  let ?s' = "Math_min (cont_width ?c') (cont_height ?c')"
  let ?p = "\<lparr>item_id = ''1'', item_weight = Fin 40000, item_data = (None::unit option)\<rparr>"
  let ?q = "\<lparr>item_id = ''2'', item_weight = Fin 40000, item_data = (None::unit option)\<rparr>"
  let ?d = "\<lparr>cont_x = Fin 0, cont_y = Fin 0, cont_width = Fin 400, cont_height = Fin 400\<rparr>"
  let ?t = "Math_min (cont_width ?d) (cont_height ?d)"
  have ne: "[?a] \<noteq> []" by simp
  have side: "?s = Fin 1" by (simp add: Math_min_def)
  have w2: "worst ([?a] @ [?b]) (Fin 1) = Fin 2" by code_simp
  have w1: "worst [?a] (Fin 1) = Fin 2" by code_simp
  have tie: "worst ([?a] @ [?b]) ?s = worst [?a] ?s"
    by (simp only: side w1 w2)
  from squarify_extends_row_iff_strictly_better [OF ne, of ?b ?c "[]" "[]"] tie
  obtain k where "k \<le> length ([]::unit TreemapItem list)"
    and "squarify [?b] [?a] ?c []
       = [] @ fst (layoutRow [?a] ?s ?c) @ fst (layoutRow (?b # take k []) ?s' ?c')
         @ squarify (drop k []) [] (snd (layoutRow (?b # take k []) ?s' ?c')) []"
    by blast
  then have "squarify [?b] [?a] ?c []
       = fst (layoutRow [?a] ?s ?c) @ fst (layoutRow [?b] ?s' ?c')"
    by (simp only: take_Nil drop_Nil append_Nil append_Nil2 squarify.simps(1) refl if_False
          not_not simp_thms)
  moreover have "fst (layoutRow [?a] ?s ?c) @ fst (layoutRow [?b] ?s' ?c')
       = [\<lparr>rect_id = ''1'', rect_x = Fin 0, rect_y = Fin 0, rect_width = Fin 1,
            rect_height = Fin (1/2), rect_data = None\<rparr>,
          \<lparr>rect_id = ''2'', rect_x = Fin 0, rect_y = Fin (1/2), rect_width = Fin (1/2),
            rect_height = Fin 1, rect_data = None\<rparr>]"
    by code_simp
  ultimately have tied: "squarify [?b] [?a] ?c []
       = [\<lparr>rect_id = ''1'', rect_x = Fin 0, rect_y = Fin 0, rect_width = Fin 1,
            rect_height = Fin (1/2), rect_data = None\<rparr>,
          \<lparr>rect_id = ''2'', rect_x = Fin 0, rect_y = Fin (1/2), rect_width = Fin (1/2),
            rect_height = Fin 1, rect_data = None\<rparr>]"
    by (rule trans)
  have ne': "[?p] \<noteq> []" by simp
  have side': "?t = Fin 400" by (simp add: Math_min_def)
  have lt: "n_lt (worst ([?p] @ [?q]) (Fin 400)) (worst [?p] (Fin 400))" by code_simp
  then have lt': "n_lt (worst ([?p] @ [?q]) ?t) (worst [?p] ?t)"
    by (simp only: side')
  from squarify_extends_row_iff_strictly_better [OF ne', of ?q ?d "[]" "[]"] lt'
  obtain j where "j \<le> length ([]::unit TreemapItem list)"
    and "squarify [?q] [?p] ?d []
       = [] @ fst (layoutRow ([?p] @ ?q # take j []) ?t ?d)
         @ squarify (drop j []) [] (snd (layoutRow ([?p] @ ?q # take j []) ?t ?d)) []"
    by blast
  then have "squarify [?q] [?p] ?d [] = fst (layoutRow ([?p] @ [?q]) ?t ?d)"
    by (simp only: take_Nil drop_Nil append_Nil append_Nil2 squarify.simps(1) refl if_False
          not_not simp_thms)
  moreover have "fst (layoutRow ([?p] @ [?q]) ?t ?d)
       = [\<lparr>rect_id = ''1'', rect_x = Fin 0, rect_y = Fin 0, rect_width = Fin 200,
            rect_height = Fin 200, rect_data = None\<rparr>,
          \<lparr>rect_id = ''2'', rect_x = Fin 200, rect_y = Fin 0, rect_width = Fin 200,
            rect_height = Fin 200, rect_data = None\<rparr>]"
    by code_simp
  ultimately have joined: "squarify [?q] [?p] ?d []
       = [\<lparr>rect_id = ''1'', rect_x = Fin 0, rect_y = Fin 0, rect_width = Fin 200,
            rect_height = Fin 200, rect_data = None\<rparr>,
          \<lparr>rect_id = ''2'', rect_x = Fin 200, rect_y = Fin 0, rect_width = Fin 200,
            rect_height = Fin 200, rect_data = None\<rparr>]"
    by (rule trans)
  show ?thesis
    by (intro conjI) (rule ne w2 w1 tied lt joined)+
qed



text \<open>
  Claim C8 (filtering). \<open>treemap\<close> returns, for every input, exactly one rectangle for
  each item whose weight is greater than 0, carrying that item's id and payload, and no
  other rectangle; so the output is as long as the list of positive-weight items, and it
  is empty when no weight is greater than 0.
\<close>

theorem treemap_one_rectangle_per_positive_item:
  "mset (map (\<lambda>r. (rect_id r, rect_data r)) (treemap items containerWidth containerHeight))
     = mset (map (\<lambda>i. (item_id i, item_data i))
              (filter (\<lambda>item. n_gt (item_weight item) (Fin 0)) items))
   \<and> length (treemap items containerWidth containerHeight)
     = length (filter (\<lambda>item. n_gt (item_weight item) (Fin 0)) items)
   \<and> ((\<forall>item \<in> set items. \<not> n_gt (item_weight item) (Fin 0))
        \<longrightarrow> treemap items containerWidth containerHeight = [])"
proof -
  let ?valid = "filter (\<lambda>item. n_gt (item_weight item) (Fin 0)) items"
  let ?out = "treemap items containerWidth containerHeight"
  let ?tagr = "\<lambda>r::'a TreemapRect. (rect_id r, rect_data r)"
  let ?tagi = "\<lambda>i::'a TreemapItem. (item_id i, item_data i)"
  have tags: "mset (map ?tagr ?out) = mset (map ?tagi ?valid)"
  proof (cases "?valid = []")
    case True
    then show ?thesis by (simp add: treemap_def)
  next
    case False
    then have "items \<noteq> []" by auto
    with False have "map ?tagr ?out
        = map ?tagi (sort_items (normalize ?valid (n_mul containerWidth containerHeight)))"
      by (simp add: treemap_def Let_def tags_squarify)
    then have "mset (map ?tagr ?out)
        = image_mset ?tagi (mset (sort_items (normalize ?valid (n_mul containerWidth containerHeight))))"
      by simp
    also have "\<dots> = mset (map ?tagi (normalize ?valid (n_mul containerWidth containerHeight)))"
      by (simp add: mset_sort_items)
    finally show ?thesis by (simp only: tags_normalize)
  qed
  have len: "length ?out = length ?valid"
  proof -
    have "size (mset (map ?tagr ?out)) = size (mset (map ?tagi ?valid))"
      using tags by (rule arg_cong)
    then show ?thesis by (simp only: size_mset length_map)
  qed
  have none: "(\<forall>item \<in> set items. \<not> n_gt (item_weight item) (Fin 0)) \<longrightarrow> ?out = []"
  proof
    assume "\<forall>item \<in> set items. \<not> n_gt (item_weight item) (Fin 0)"
    then have "?valid = []" by (simp add: filter_empty_conv)
    then show "?out = []" by (simp add: treemap_def)
  qed
  from tags len none show ?thesis by blast
qed

theorem treemap_filter_witness:
  "length (treemap [\<lparr>item_id = ''1'', item_weight = Fin 3, item_data = (None::unit option)\<rparr>,
                    \<lparr>item_id = ''2'', item_weight = Fin 0, item_data = None\<rparr>,
                    \<lparr>item_id = ''3'', item_weight = Fin 2, item_data = None\<rparr>] (Fin 500) (Fin 500))
     = 2
   \<and> list_all (\<lambda>item. \<not> n_gt (item_weight item) (Fin 0))
        [\<lparr>item_id = ''1'', item_weight = Fin 0, item_data = (None::unit option)\<rparr>,
         \<lparr>item_id = ''2'', item_weight = Fin (- 1), item_data = None\<rparr>]
   \<and> treemap [\<lparr>item_id = ''1'', item_weight = Fin 0, item_data = (None::unit option)\<rparr>,
              \<lparr>item_id = ''2'', item_weight = Fin (- 1), item_data = None\<rparr>] (Fin 500) (Fin 500)
     = []"
proof -
  let ?xs = "[\<lparr>item_id = ''1'', item_weight = Fin 3, item_data = (None::unit option)\<rparr>,
              \<lparr>item_id = ''2'', item_weight = Fin 0, item_data = None\<rparr>,
              \<lparr>item_id = ''3'', item_weight = Fin 2, item_data = None\<rparr>]"
  let ?ys = "[\<lparr>item_id = ''1'', item_weight = Fin 0, item_data = (None::unit option)\<rparr>,
              \<lparr>item_id = ''2'', item_weight = Fin (- 1), item_data = None\<rparr>]"
  have "length (treemap ?xs (Fin 500) (Fin 500))
      = length (filter (\<lambda>item. n_gt (item_weight item) (Fin 0)) ?xs)"
    using treemap_one_rectangle_per_positive_item [of ?xs "Fin 500" "Fin 500"] by blast
  then have two: "length (treemap ?xs (Fin 500) (Fin 500)) = 2"
    by (simp add: n_gt_def)
  have none: "\<forall>item \<in> set ?ys. \<not> n_gt (item_weight item) (Fin 0)"
    by (simp add: n_gt_def)
  with treemap_one_rectangle_per_positive_item [of ?ys "Fin 500" "Fin 500"]
  have "treemap ?ys (Fin 500) (Fin 500) = []"
    by blast
  moreover have "list_all (\<lambda>item. \<not> n_gt (item_weight item) (Fin 0)) ?ys"
    by (simp add: n_gt_def)
  ultimately show ?thesis using two by blast
qed

text \<open>
  Claim C9 (\<open>normalize\<close>), amended. For a non-empty list of items of positive weights
  and a target area, \<open>normalize\<close> keeps the length, the ids and the payloads, and gives
  the k-th item the weight \<open>(weight / total) * area\<close>, each operation rounded to a
  double. The real numbers \<open>weight / total * area\<close> add up to the area exactly; the
  doubles need not, as the second theorem after this one shows.
\<close>

theorem normalize_rescales_to_area:
  assumes "items \<noteq> []" and "map item_weight items = map Fin ws" and "\<forall>w \<in> set ws. 0 < w"
  shows "length (normalize_double items area) = length items
     \<and> (\<forall>k < length items.
           item_weight (normalize_double items area ! k)
             = d_mul (d_div (Fin (ws ! k)) (sum_weight_double items)) area
           \<and> item_id (normalize_double items area ! k) = item_id (items ! k)
           \<and> item_data (normalize_double items area ! k) = item_data (items ! k))
     \<and> sum_list (map (\<lambda>w. w / sum_list ws * a) ws) = a"
proof -
  have len: "length ws = length items"
    using assms(2) by (metis length_map)
  then have "ws \<noteq> []" using assms(1) by auto
  then have S: "0 < sum_list ws"
    using assms(3) by (rule sum_list_pos_real)
  have wk: "item_weight (items ! k) = Fin (ws ! k)" if "k < length items" for k
    using that assms(2) len by (metis nth_map)
  have l: "length (normalize_double items area) = length items"
    by (simp add: normalize_double_def Let_def)
  have nk: "item_weight (normalize_double items area ! k)
             = d_mul (d_div (Fin (ws ! k)) (sum_weight_double items)) area
           \<and> item_id (normalize_double items area ! k) = item_id (items ! k)
           \<and> item_data (normalize_double items area ! k) = item_data (items ! k)"
    if "k < length items" for k
    using that by (simp add: normalize_double_def Let_def wk)
  have "sum_list (map (\<lambda>w. w / sum_list ws * a) ws) = sum_list ws / sum_list ws * a"
    by (rule sum_list_rescale)
  also have "\<dots> = a" using S by simp
  finally have total: "sum_list (map (\<lambda>w. w / sum_list ws * a) ws) = a" .
  from l nk total show ?thesis by blast
qed

theorem normalize_rescales_witness:
  "[\<lparr>item_id = ''1'', item_weight = Fin 3, item_data = (None::unit option)\<rparr>,
    \<lparr>item_id = ''2'', item_weight = Fin 1, item_data = None\<rparr>] \<noteq> []
   \<and> map item_weight [\<lparr>item_id = ''1'', item_weight = Fin 3, item_data = (None::unit option)\<rparr>,
                        \<lparr>item_id = ''2'', item_weight = Fin 1, item_data = None\<rparr>]
       = map Fin [3, 1]
   \<and> list_all (\<lambda>w. 0 < w) [3, 1 :: real]
   \<and> item_weight (normalize_double
          [\<lparr>item_id = ''1'', item_weight = Fin 3, item_data = (None::unit option)\<rparr>,
           \<lparr>item_id = ''2'', item_weight = Fin 1, item_data = None\<rparr>] (Fin 8) ! 0)
       = Fin 6
   \<and> item_weight (normalize_double
          [\<lparr>item_id = ''1'', item_weight = Fin 3, item_data = (None::unit option)\<rparr>,
           \<lparr>item_id = ''2'', item_weight = Fin 1, item_data = None\<rparr>] (Fin 8) ! 1)
       = Fin 2
   \<and> sum_list (map (\<lambda>w. w / sum_list [3, 1] * 8) [3, 1 :: real]) = 8"
proof -
  let ?items = "[\<lparr>item_id = ''1'', item_weight = Fin 3, item_data = (None::unit option)\<rparr>,
                 \<lparr>item_id = ''2'', item_weight = Fin 1, item_data = None\<rparr>]"
  have ne: "?items \<noteq> []" by simp
  have ws: "map item_weight ?items = map Fin [3, 1]" by simp
  have pos: "\<forall>w \<in> set [3, 1 :: real]. 0 < w" by simp
  note T = normalize_rescales_to_area [OF ne ws pos, of "Fin 8" 8]
  from T have k: "\<forall>k < length ?items.
      item_weight (normalize_double ?items (Fin 8) ! k)
        = d_mul (d_div (Fin ([3, 1] ! k)) (sum_weight_double ?items)) (Fin 8)"
    by blast
  have e0: "d_mul (d_div (Fin ([3, 1] ! 0)) (sum_weight_double ?items)) (Fin 8) = Fin 6"
    by code_simp
  have e1: "d_mul (d_div (Fin ([3, 1] ! 1)) (sum_weight_double ?items)) (Fin 8) = Fin 2"
    by code_simp
  have "(0::nat) < length ?items" by simp
  with k have "item_weight (normalize_double ?items (Fin 8) ! 0)
        = d_mul (d_div (Fin ([3, 1] ! 0)) (sum_weight_double ?items)) (Fin 8)"
    by blast
  then have k0: "item_weight (normalize_double ?items (Fin 8) ! 0) = Fin 6"
    by (simp only: e0)
  have "(1::nat) < length ?items" by simp
  with k have "item_weight (normalize_double ?items (Fin 8) ! 1)
        = d_mul (d_div (Fin ([3, 1] ! 1)) (sum_weight_double ?items)) (Fin 8)"
    by blast
  then have k1: "item_weight (normalize_double ?items (Fin 8) ! 1) = Fin 2"
    by (simp only: e1)
  from T have total: "sum_list (map (\<lambda>w. w / sum_list [3, 1] * 8) [3, 1 :: real]) = 8"
    by blast
  have "list_all (\<lambda>w. 0 < w) [3, 1 :: real]" by simp
  with ne ws k0 k1 total show ?thesis by blast
qed

text \<open>
  Claim C9 as the specification states it fails: for the weights 1, 4, 1 and the area
  160000 the doubles are 26666.666666666664, 106666.66666666666 and 26666.666666666664,
  and they add up to 159999.99999999997, one unit in the last place below 160000.
\<close>

theorem normalize_double_sum_misses_area:
  "map item_weight (normalize_double
      [\<lparr>item_id = ''1'', item_weight = Fin 1, item_data = (None::unit option)\<rparr>,
       \<lparr>item_id = ''2'', item_weight = Fin 4, item_data = None\<rparr>,
       \<lparr>item_id = ''3'', item_weight = Fin 1, item_data = None\<rparr>] (Fin 160000))
     = [Fin (3665038759253333 / 137438953472), Fin (3665038759253333 / 34359738368),
        Fin (3665038759253333 / 137438953472)]
   \<and> sum_weight_double (normalize_double
      [\<lparr>item_id = ''1'', item_weight = Fin 1, item_data = (None::unit option)\<rparr>,
       \<lparr>item_id = ''2'', item_weight = Fin 4, item_data = None\<rparr>,
       \<lparr>item_id = ''3'', item_weight = Fin 1, item_data = None\<rparr>] (Fin 160000))
     = Fin (160000 - 1 / 2 ^ 35)
   \<and> sum_weight_double (normalize_double
      [\<lparr>item_id = ''1'', item_weight = Fin 1, item_data = (None::unit option)\<rparr>,
       \<lparr>item_id = ''2'', item_weight = Fin 4, item_data = None\<rparr>,
       \<lparr>item_id = ''3'', item_weight = Fin 1, item_data = None\<rparr>] (Fin 160000))
     \<noteq> Fin 160000"
  by code_simp

text \<open>
  Claim C10 (termination). The recursion of \<open>squarify\<close> on \<open>n\<close> items returns within
  \<open>2 * n + 2\<close> calls, whatever the row, the container and the numbers are, and more fuel
  does not change the result; so \<open>treemap\<close> returns on every input.
\<close>

theorem squarify_terminates:
  "squarify_fuel (2 * length items + 2 + k) items row container rects
     = Some (squarify items row container rects)
   \<and> treemap_fuel (2 * length items + 2 + k) items containerWidth containerHeight
     = Some (treemap items containerWidth containerHeight)"
proof
  show "squarify_fuel (2 * length items + 2 + k) items row container rects
     = Some (squarify items row container rects)"
    by (rule squarify_fuel_enough) simp
next
  let ?valid = "filter (\<lambda>item. n_gt (item_weight item) (Fin 0)) items"
  let ?sorted = "sort_items (normalize ?valid (n_mul containerWidth containerHeight))"
  have le: "length ?valid \<le> length items"
    by (rule length_filter_le)
  have len: "length ?sorted = length ?valid"
    using mset_sort_items [of "normalize ?valid (n_mul containerWidth containerHeight)"]
    by (metis length_normalize size_mset)
  have lt: "2 * length ?sorted + 0 < 2 * length items + 2 + k"
    unfolding len using le by linarith
  have "(if ([]::'a TreemapItem list) = [] then (0::nat) else 1) = 0"
    by simp
  with lt have "2 * length ?sorted + (if ([]::'a TreemapItem list) = [] then 0 else 1)
               < 2 * length items + 2 + k"
    by (simp only:)
  from squarify_fuel_enough [OF this]
  show "treemap_fuel (2 * length items + 2 + k) items containerWidth containerHeight
     = Some (treemap items containerWidth containerHeight)"
    by (simp add: treemap_fuel_def treemap_def Let_def)
qed

end
